theory Spec2Isabelle
  imports
    Complex_Main
    "HOL-Library.Char_ord"
    "HOL-Library.List_Lexorder"
    "HOL-Library.Product_Lexorder"
begin

section \<open>Data model\<close>

text \<open>
  A Python float, as far as the program depends on it: a finite number, the two
  infinities, or NaN. Finite numbers are exact reals, so rounding, overflow to
  infinity and the sign of zero are not modelled; the special values follow
  IEEE 754, which is what numpy computes.
\<close>

datatype fl = Fin real | PInf | NInf | NaN

text \<open>
  The value returned by \<open>response.json()\<close>. An object is the list of its members in
  the order of the text; a later member with the same key replaces an earlier one,
  as in the Python dict.
\<close>

datatype json =
    JNull
  | JBool bool
  | JInt int
  | JFloat fl
  | JStr string
  | JList "json list"
  | JObj "(string \<times> json) list"

text \<open>
  One row of the normalized frame. \<open>CountryCode\<close> is copied from the input without
  any check: \<open>Some s\<close> is a string cell, \<open>None\<close> any other cell (null, a missing key
  or a value of another JSON type).
\<close>

record indicator_record =
  CountryName :: string
  CountryCode :: "string option"
  Year :: int
  Value :: fl

text \<open>
  The exceptions of the normalization, named after the place that raises them.
  \<open>KeyError k\<close>: the raw frame has no column \<open>k\<close>. \<open>AttributeError\<close>: the lambda calls
  \<open>.get\<close> on a cell that is not a mapping. \<open>AstypeError\<close>: \<open>astype(int)\<close> rejects a
  cell (Python raises ValueError, TypeError or OverflowError, depending on the
  cell). \<open>Unmodelled\<close> is not an exception: it marks an input on which the behaviour
  of pandas is left open here, so nothing is stated about the program on it.
\<close>

datatype error = KeyError string | AttributeError | AstypeError | Unmodelled

definition and_then :: "error + 'a \<Rightarrow> ('a \<Rightarrow> error + 'b) \<Rightarrow> error + 'b" where
  "and_then m f = (case m of Inl e \<Rightarrow> Inl e | Inr x \<Rightarrow> f x)"

fun traverse :: "('a \<Rightarrow> error + 'b) \<Rightarrow> 'a list \<Rightarrow> error + 'b list" where
  "traverse f [] = Inr []"
| "traverse f (x # xs) =
     (case f x of
        Inl e \<Rightarrow> Inl e
      | Inr y \<Rightarrow> (case traverse f xs of Inl e \<Rightarrow> Inl e | Inr ys \<Rightarrow> Inr (y # ys)))"

section \<open>The raw frame\<close>

definition dict_get :: "(string \<times> json) list \<Rightarrow> string \<Rightarrow> json option" where
  "dict_get d k = map_of (rev d) k"

fun is_dict :: "json \<Rightarrow> bool" where
  "is_dict (JObj d) = True"
| "is_dict _ = False"

fun members :: "json \<Rightarrow> (string \<times> json) list" where
  "members (JObj d) = d"
| "members _ = []"

text \<open>
  \<open>pd.DataFrame(raw_data[1])\<close>: \<open>None\<close> and the empty list give a frame with no row
  and no column; a list of mappings gives one row per mapping. Any other argument
  is left open.
\<close>

definition DataFrame :: "json \<Rightarrow> error + (string \<times> json) list list" where
  "DataFrame data =
     (case data of
        JNull \<Rightarrow> Inr []
      | JList rows \<Rightarrow> if list_all is_dict rows then Inr (map members rows) else Inl Unmodelled
      | _ \<Rightarrow> Inl Unmodelled)"

text \<open>
  \<open>df_raw[k]\<close>: the columns of the frame are the keys that occur in some row; a row
  without the key holds NaN in that column.
\<close>

definition has_key :: "string \<Rightarrow> (string \<times> json) list \<Rightarrow> bool" where
  "has_key k row = (dict_get row k \<noteq> None)"

definition cell :: "(string \<times> json) list \<Rightarrow> string \<Rightarrow> json" where
  "cell row k = (case dict_get row k of None \<Rightarrow> JFloat NaN | Some v \<Rightarrow> v)"

definition column :: "(string \<times> json) list list \<Rightarrow> string \<Rightarrow> error + json list" where
  "column df k =
     (if list_ex (has_key k) df then Inr (map (\<lambda>row. cell row k) df) else Inl (KeyError k))"

section \<open>Cell conversions\<close>

definition is_digit :: "char \<Rightarrow> bool" where
  "is_digit c = (CHR ''0'' \<le> c \<and> c \<le> CHR ''9'')"

definition digit_val :: "char \<Rightarrow> nat" where
  "digit_val c = of_char c - 48"

definition digits_val :: "string \<Rightarrow> nat" where
  "digits_val s = foldl (\<lambda>a c. 10 * a + digit_val c) 0 s"

definition is_digits :: "string \<Rightarrow> bool" where
  "is_digits s = (s \<noteq> [] \<and> list_all is_digit s)"

definition split_sign :: "string \<Rightarrow> bool \<times> string" where
  "split_sign s =
     (case s of
        [] \<Rightarrow> (False, [])
      | c # t \<Rightarrow> if c = CHR ''-'' then (True, t)
                 else if c = CHR ''+'' then (False, t) else (False, s))"

definition in_int64 :: "int \<Rightarrow> bool" where
  "in_int64 i = (- (2 ^ 63) \<le> i \<and> i < 2 ^ 63)"

text \<open>
  A printable ASCII character that no base-10 integer literal of Python contains
  (digits, signs, the underscore and white space are the ones it may contain).
\<close>

definition int_junk :: "char \<Rightarrow> bool" where
  "int_junk c =
     (let n = (of_char c :: nat)
      in 33 \<le> n \<and> n \<le> 126 \<and> \<not> is_digit c
         \<and> c \<noteq> CHR ''+'' \<and> c \<noteq> CHR ''-'' \<and> c \<noteq> CHR ''_'')"

text \<open>
  \<open>int(s)\<close> as \<open>astype(int)\<close> applies it to a string cell. An optional sign followed
  by ASCII digits is the number, if it fits 64 bits; the empty string and a string
  with a character no integer literal contains are rejected; the other strings
  (white space, underscores, non-ASCII digits) are left open.
\<close>

definition int_of_str :: "string \<Rightarrow> error + int" where
  "int_of_str s =
     (let (neg, t) = split_sign s in
      if is_digits t then
        (let v = int (digits_val t); i = (if neg then - v else v)
         in if in_int64 i then Inr i else Inl AstypeError)
      else if s = [] \<or> list_ex int_junk s then Inl AstypeError
      else Inl Unmodelled)"

text \<open>
  One cell of \<open>df_raw['date'].astype(int)\<close>. Null, NaN (a missing key), lists and
  mappings are rejected; finite floats and integers outside 64 bits are left open.
\<close>

fun astype_int :: "json \<Rightarrow> error + int" where
  "astype_int (JStr s) = int_of_str s"
| "astype_int (JInt i) = (if in_int64 i then Inr i else Inl Unmodelled)"
| "astype_int (JBool b) = Inr (if b then 1 else 0)"
| "astype_int (JFloat NaN) = Inl AstypeError"
| "astype_int (JFloat _) = Inl Unmodelled"
| "astype_int JNull = Inl AstypeError"
| "astype_int (JList _) = Inl AstypeError"
| "astype_int (JObj _) = Inl AstypeError"

definition lower :: "char \<Rightarrow> char" where
  "lower c = (if CHR ''A'' \<le> c \<and> c \<le> CHR ''Z'' then char_of (of_char c + (32::nat)) else c)"

text \<open>
  The string parser behind \<open>pd.to_numeric(..., errors='coerce')\<close>. A plain decimal
  (optional sign, digits, optionally a point and more digits) is its value; the
  spellings of infinity are recognised without regard to case; a string with no
  ASCII digit that is none of these fails to parse and is coerced to NaN. Other
  strings with a digit (exponents, white space, a bare point) are left open.
\<close>

definition float_of_str :: "string \<Rightarrow> error + fl" where
  "float_of_str s =
     (let (neg, t) = split_sign s;
          ip = takeWhile (\<lambda>c. c \<noteq> CHR ''.'') t;
          fp = drop (Suc (length ip)) t;
          sgn = (if neg then - 1 else 1 :: real);
          l = map lower s
      in if is_digits t then Inr (Fin (sgn * real (digits_val t)))
         else if is_digits ip \<and> is_digits fp then
           Inr (Fin (sgn * (real (digits_val ip) + real (digits_val fp) / 10 ^ length fp)))
         else if l = ''inf'' \<or> l = ''+inf'' \<or> l = ''infinity'' \<or> l = ''+infinity'' then Inr PInf
         else if l = ''-inf'' \<or> l = ''-infinity'' then Inr NInf
         else if list_ex is_digit s then Inl Unmodelled
         else Inr NaN)"

text \<open>One cell of \<open>pd.to_numeric(df_raw['value'], errors='coerce')\<close>.\<close>

fun to_numeric :: "json \<Rightarrow> error + fl" where
  "to_numeric (JStr s) = float_of_str s"
| "to_numeric (JInt i) = Inr (Fin (real_of_int i))"
| "to_numeric (JBool b) = Inr (Fin (if b then 1 else 0))"
| "to_numeric (JFloat f) = Inr f"
| "to_numeric JNull = Inr NaN"
| "to_numeric (JList _) = Inr NaN"
| "to_numeric (JObj _) = Inr NaN"

text \<open>
  The value of \<open>x.get('value')\<close> as a cell of the \<open>CountryName\<close> column: a string is a
  name, null and NaN are missing; names of another type are left open, their sort
  order not being modelled.
\<close>

fun name_cell :: "json option \<Rightarrow> error + string option" where
  "name_cell None = Inr None"
| "name_cell (Some JNull) = Inr None"
| "name_cell (Some (JFloat NaN)) = Inr None"
| "name_cell (Some (JStr s)) = Inr (Some s)"
| "name_cell (Some _) = Inl Unmodelled"

text \<open>
  \<open>lambda x: x.get('value') if x else None\<close> on one cell of the \<open>country\<close> column.
  Null, the empty string, the empty list and the empty mapping are falsy; NaN (a
  missing key) is truthy and has no \<open>get\<close>. Numeric cells are left open: pandas may
  turn a null beside them into NaN.
\<close>

fun country_name :: "json \<Rightarrow> error + string option" where
  "country_name JNull = Inr None"
| "country_name (JObj d) = (if d = [] then Inr None else name_cell (dict_get d ''value''))"
| "country_name (JStr s) = (if s = [] then Inr None else Inl AttributeError)"
| "country_name (JList xs) = (if xs = [] then Inr None else Inl AttributeError)"
| "country_name (JFloat NaN) = Inl AttributeError"
| "country_name (JFloat _) = Inl Unmodelled"
| "country_name (JInt _) = Inl Unmodelled"
| "country_name (JBool _) = Inl Unmodelled"

fun code_cell :: "json \<Rightarrow> string option" where
  "code_cell (JStr s) = Some s"
| "code_cell _ = None"

section \<open>Normalization\<close>

text \<open>
  \<open>dropna(subset=['Value', 'CountryName'])\<close> on the four columns, which have the
  same length: a row is kept when its value is not NaN and its name is present.
\<close>

fun dropna ::
  "string option list \<Rightarrow> string option list \<Rightarrow> int list \<Rightarrow> fl list \<Rightarrow> indicator_record list"
where
  "dropna (n # ns) (c # cs) (y # ys) (v # vs) =
     (case n of
        None \<Rightarrow> dropna ns cs ys vs
      | Some name \<Rightarrow>
          if v = NaN then dropna ns cs ys vs
          else \<lparr>CountryName = name, CountryCode = c, Year = y, Value = v\<rparr> # dropna ns cs ys vs)"
| "dropna _ _ _ _ = []"

definition sort_key_of :: "indicator_record \<Rightarrow> string \<times> int" where
  "sort_key_of r = (CountryName r, Year r)"

definition sort_values :: "indicator_record list \<Rightarrow> indicator_record list" where
  "sort_values df = sort_key sort_key_of df"

definition process_world_bank_data :: "json \<Rightarrow> error + indicator_record list" where
  "process_world_bank_data raw_data =
     (case raw_data of
        JList items \<Rightarrow>
          if length items < 2 then Inr []
          else
            and_then (DataFrame (items ! 1)) (\<lambda>df_raw.
            and_then (column df_raw ''country'') (\<lambda>country.
            and_then (traverse country_name country) (\<lambda>names.
            and_then (column df_raw ''countryiso3code'') (\<lambda>codes.
            and_then (column df_raw ''date'') (\<lambda>dates.
            and_then (traverse astype_int dates) (\<lambda>years.
            and_then (column df_raw ''value'') (\<lambda>vals.
            and_then (traverse to_numeric vals) (\<lambda>nums.
              Inr (sort_values (dropna names (map code_cell codes) years nums))))))))))
      | _ \<Rightarrow> Inr [])"


subsection \<open>Row by row\<close>



section \<open>Ingestion\<close>

text \<open>
  What \<open>requests.get(url, timeout=15)\<close> and \<open>response.json()\<close> produce: a response
  with its status code and its body (\<open>None\<close> when the body is not JSON), or a
  \<open>RequestException\<close> with its text.
\<close>

datatype http_outcome = Response int "json option" | RequestException string

definition digit_char :: "nat \<Rightarrow> char" where
  "digit_char n = ''0123456789'' ! n"

function str_nat :: "nat \<Rightarrow> string" where
  "str_nat n =
     (if n < 10 then [digit_char n] else str_nat (n div 10) @ [digit_char (n mod 10)])"
  by pat_completeness auto
termination
  by (relation "measure (\<lambda>n. n)") auto

declare str_nat.simps [simp del]

definition str_int :: "int \<Rightarrow> string" where
  "str_int i = (if i < 0 then CHR ''-'' # str_nat (nat (- i)) else str_nat (nat i))"

definition api_error_notice :: "int \<Rightarrow> string" where
  "api_error_notice code =
     ''Error al conectar con la API: C'' @ [CHR 0xC3, CHR 0xB3] @ ''digo '' @ str_int code"

definition connection_error_notice :: "string \<Rightarrow> string" where
  "connection_error_notice e = ''Error de conexi'' @ [CHR 0xC3, CHR 0xB3] @ ''n: '' @ e"

text \<open>
  \<open>load_data\<close> returns the list of the \<open>st.error\<close> notices it emits and its result;
  \<open>Inl\<close> is an exception that leaves the function. Only \<open>RequestException\<close> is caught,
  so an exception of the normalization propagates. A body that is not JSON is left
  open (whether its exception is a \<open>RequestException\<close> depends on the version of
  requests). The cache decorator is not modelled.
\<close>

fun load_data :: "http_outcome \<Rightarrow> string list \<times> (error + indicator_record list)" where
  "load_data (Response status_code body) =
     (if status_code = 200 then
        (case body of
           None \<Rightarrow> ([], Inl Unmodelled)
         | Some data \<Rightarrow> ([], process_world_bank_data data))
      else ([api_error_notice status_code], Inr []))"
| "load_data (RequestException e) = ([connection_error_notice e], Inr [])"

section \<open>Derived views\<close>

definition isin :: "string list \<Rightarrow> string list \<Rightarrow> bool list" where
  "isin col vals = map (\<lambda>x. x \<in> set vals) col"

definition boolean_index :: "'a list \<Rightarrow> bool list \<Rightarrow> 'a list" where
  "boolean_index df bmask = map fst (filter snd (zip df bmask))"

text \<open>
  \<open>data_df[(data_df['CountryName'].isin(selected_countries)) &
  (data_df['Year'] >= start_year)]\<close>
\<close>

definition filtered_df ::
  "indicator_record list \<Rightarrow> string list \<Rightarrow> int \<Rightarrow> indicator_record list" where
  "filtered_df data_df selected_countries start_year =
     boolean_index data_df
       (map2 (\<and>) (isin (map CountryName data_df) selected_countries)
                  (map (\<lambda>y. start_year \<le> y) (map Year data_df)))"

text \<open>\<open>data_df[data_df['Year'] == map_year]\<close>\<close>

definition df_map :: "indicator_record list \<Rightarrow> int \<Rightarrow> indicator_record list" where
  "df_map data_df map_year =
     boolean_index data_df (map (\<lambda>y. y = map_year) (map Year data_df))"

subsection \<open>Float arithmetic\<close>

fun fdiv :: "fl \<Rightarrow> fl \<Rightarrow> fl" where
  "fdiv NaN _ = NaN"
| "fdiv _ NaN = NaN"
| "fdiv (Fin a) (Fin b) =
     (if b = 0 then (if a = 0 then NaN else if 0 < a then PInf else NInf) else Fin (a / b))"
| "fdiv (Fin a) PInf = Fin 0"
| "fdiv (Fin a) NInf = Fin 0"
| "fdiv PInf (Fin b) = (if b < 0 then NInf else PInf)"
| "fdiv NInf (Fin b) = (if b < 0 then PInf else NInf)"
| "fdiv PInf PInf = NaN"
| "fdiv PInf NInf = NaN"
| "fdiv NInf PInf = NaN"
| "fdiv NInf NInf = NaN"

fun fsub :: "fl \<Rightarrow> fl \<Rightarrow> fl" where
  "fsub NaN _ = NaN"
| "fsub _ NaN = NaN"
| "fsub (Fin a) (Fin b) = Fin (a - b)"
| "fsub (Fin a) PInf = NInf"
| "fsub (Fin a) NInf = PInf"
| "fsub PInf (Fin b) = PInf"
| "fsub NInf (Fin b) = NInf"
| "fsub PInf PInf = NaN"
| "fsub PInf NInf = PInf"
| "fsub NInf PInf = NInf"
| "fsub NInf NInf = NaN"

fun inf_times :: "bool \<Rightarrow> real \<Rightarrow> fl" where
  "inf_times positive a =
     (if a = 0 then NaN else if (0 < a) = positive then PInf else NInf)"

fun fmul :: "fl \<Rightarrow> fl \<Rightarrow> fl" where
  "fmul NaN _ = NaN"
| "fmul _ NaN = NaN"
| "fmul (Fin a) (Fin b) = Fin (a * b)"
| "fmul (Fin a) PInf = inf_times True a"
| "fmul (Fin a) NInf = inf_times False a"
| "fmul PInf (Fin b) = inf_times True b"
| "fmul NInf (Fin b) = inf_times False b"
| "fmul PInf PInf = PInf"
| "fmul PInf NInf = NInf"
| "fmul NInf PInf = NInf"
| "fmul NInf NInf = PInf"

subsection \<open>Growth summary\<close>

record growth_row =
  growth_CountryName :: string
  Final_Value :: fl
  Initial_Value :: fl
  Total_Growth :: fl

text \<open>
  \<open>groupby('CountryName')\<close>: the groups are the distinct names in ascending order;
  a group holds the rows of its name in the order of the frame.
\<close>

definition group_keys :: "indicator_record list \<Rightarrow> string list" where
  "group_keys df = sort (remdups (map CountryName df))"

definition get_group :: "indicator_record list \<Rightarrow> string \<Rightarrow> indicator_record list" where
  "get_group df k = filter (\<lambda>r. CountryName r = k) df"

text \<open>The aggregations \<open>'first'\<close> and \<open>'last'\<close> of pandas skip NaN.\<close>

definition agg_first :: "fl list \<Rightarrow> fl" where
  "agg_first vs = (case filter (\<lambda>v. v \<noteq> NaN) vs of [] \<Rightarrow> NaN | v # _ \<Rightarrow> v)"

definition agg_last :: "fl list \<Rightarrow> fl" where
  "agg_last vs = (case rev (filter (\<lambda>v. v \<noteq> NaN) vs) of [] \<Rightarrow> NaN | v # _ \<Rightarrow> v)"

definition total_growth :: "fl \<Rightarrow> fl \<Rightarrow> fl" where
  "total_growth final initial = fmul (fsub (fdiv final initial) (Fin 1)) (Fin 100)"

definition growth_df :: "indicator_record list \<Rightarrow> growth_row list" where
  "growth_df df =
     map (\<lambda>k. let vs = map Value (get_group df k);
                  final = agg_last vs;
                  initial = agg_first vs
              in \<lparr>growth_CountryName = k, Final_Value = final, Initial_Value = initial,
                  Total_Growth = total_growth final initial\<rparr>)
         (group_keys df)"

subsection \<open>The page\<close>

record views =
  view_filtered :: "indicator_record list"
  view_growth :: "growth_row list"
  view_map :: "indicator_record list"

text \<open>
  The body of \<open>if not data_df.empty:\<close> as far as the data goes: the three views
  computed from the frame and the values of the widgets. \<open>None\<close> is the \<open>else\<close>
  branch, which shows an error notice only.
\<close>

definition dashboard ::
  "indicator_record list \<Rightarrow> string list \<Rightarrow> int \<Rightarrow> int \<Rightarrow> views option" where
  "dashboard data_df selected_countries start_year map_year =
     (if data_df = [] then None
      else
        (let fd = filtered_df data_df selected_countries start_year
         in Some \<lparr>view_filtered = fd, view_growth = growth_df fd,
                  view_map = df_map data_df map_year\<rparr>))"

section \<open>Sample inputs\<close>

definition record_json :: "json \<Rightarrow> string \<Rightarrow> json \<Rightarrow> json \<Rightarrow> json" where
  "record_json country code date val =
     JObj [(''country'', country), (''countryiso3code'', JStr code),
           (''date'', date), (''value'', val)]"

definition country_json :: "string \<Rightarrow> json" where
  "country_json name = JObj [(''value'', JStr name)]"

definition envelope :: "json list \<Rightarrow> json" where
  "envelope rows = JList [JObj [(''page'', JInt 1)], JList rows]"

text \<open>The envelope of the end-to-end scenario of the specification.\<close>

definition brazil_envelope :: json where
  "brazil_envelope =
     envelope [record_json (country_json ''Brazil'') ''BRA'' (JStr ''2020'') (JStr ''8523.1'')]"

text \<open>Three records out of order; the second has a null value.\<close>

definition mixed_rows :: "json list" where
  "mixed_rows =
     [record_json (country_json ''Chile'') ''CHL'' (JStr ''2001'') (JStr ''7''),
      record_json (country_json ''Brazil'') ''BRA'' (JStr ''2000'') JNull,
      record_json (country_json ''Brazil'') ''BRA'' (JStr ''1999'') (JStr ''3.5'')]"

text \<open>Two records; the year of the second is not a number.\<close>

definition bad_year_rows :: "json list" where
  "bad_year_rows =
     [record_json (country_json ''Brazil'') ''BRA'' (JStr ''2020'') (JStr ''8523.1''),
      record_json (country_json ''Chile'') ''CHL'' (JStr ''abc'') (JStr ''7'')]"

text \<open>
  A record with an empty name, an empty code and the value \<open>1e999\<close>, which Python
  reads as infinity.
\<close>

definition loose_rows :: "json list" where
  "loose_rows = [record_json (country_json []) [] (JStr ''2020'') (JFloat PInf)]"

text \<open>An envelope whose record list is null, the shape of an empty result.\<close>

definition no_data_envelope :: json where
  "no_data_envelope = JList [JObj [(''page'', JInt 0)], JNull]"

text \<open>A one-element list, the shape of an error message of the API.\<close>

definition message_envelope :: json where
  "message_envelope = JList [JObj [(''message'', JStr ''Invalid value'')]]"

definition brazil_rec :: "int \<Rightarrow> real \<Rightarrow> indicator_record" where
  "brazil_rec y v = \<lparr>CountryName = ''Brazil'', CountryCode = Some ''BRA'', Year = y, Value = Fin v\<rparr>"

definition chile_rec :: "int \<Rightarrow> real \<Rightarrow> indicator_record" where
  "chile_rec y v = \<lparr>CountryName = ''Chile'', CountryCode = Some ''CHL'', Year = y, Value = Fin v\<rparr>"

section \<open>Cell conversions on the samples\<close>

lemma int_of_str_samples:
  "int_of_str ''2020'' = Inr 2020" "int_of_str ''2001'' = Inr 2001"
  "int_of_str ''2000'' = Inr 2000" "int_of_str ''1999'' = Inr 1999"
  "int_of_str ''abc'' = Inl AstypeError"
  by (simp_all add: int_of_str_def split_sign_def is_digits_def is_digit_def
      digits_val_def digit_val_def in_int64_def int_junk_def)

lemma float_of_str_samples:
  "float_of_str ''8523.1'' = Inr (Fin (85231 / 10))" "float_of_str ''7'' = Inr (Fin 7)"
  "float_of_str ''3.5'' = Inr (Fin (7 / 2))"
  by (simp_all add: float_of_str_def split_sign_def is_digits_def is_digit_def
      digits_val_def digit_val_def lower_def)

lemmas sample_defs =
  envelope_def record_json_def country_json_def brazil_envelope_def mixed_rows_def
  bad_year_rows_def loose_rows_def brazil_rec_def chile_rec_def no_data_envelope_def
  message_envelope_def

lemmas pipeline_defs =
  process_world_bank_data_def and_then_def DataFrame_def column_def has_key_def cell_def
  dict_get_def sort_values_def sort_key_of_def

section \<open>Derived views are filters\<close>

lemma boolean_index_map: "boolean_index df (map p df) = filter p df"
  unfolding boolean_index_def by (induction df) auto

lemma filter_mask:
  "map2 (\<and>) (isin (map CountryName df) sel) (map (\<lambda>y. start \<le> y) (map Year df))
     = map (\<lambda>r. CountryName r \<in> set sel \<and> start \<le> Year r) df"
  unfolding isin_def by (induction df) auto

lemma filtered_df_filter:
  "filtered_df df sel start = filter (\<lambda>r. CountryName r \<in> set sel \<and> start \<le> Year r) df"
  unfolding filtered_df_def filter_mask by (rule boolean_index_map)

lemma df_map_filter: "df_map df y = filter (\<lambda>r. Year r = y) df"
proof -
  have "map (\<lambda>x. x = y) (map Year df) = map (\<lambda>r. Year r = y) df" by simp
  then show ?thesis unfolding df_map_def by (simp only: boolean_index_map)
qed

lemma growth_df_Nil: "growth_df [] = []"
  by (simp add: growth_df_def group_keys_def)

section \<open>Normalization lemmas\<close>


lemma traverse_Inr_set:
  "traverse f xs = Inr ys \<Longrightarrow> y \<in> set ys \<Longrightarrow> \<exists>x \<in> set xs. f x = Inr y"
  by (induction xs arbitrary: ys) (auto split: sum.splits)


lemma dropna_Value: "r \<in> set (dropna ns cs ys vs) \<Longrightarrow> Value r \<noteq> NaN \<and> Year r \<in> set ys"
  by (induction ns cs ys vs rule: dropna.induct) (auto split: option.splits if_splits)

lemma int_of_str_range: "int_of_str s = Inr i \<Longrightarrow> in_int64 i"
  by (auto simp: int_of_str_def Let_def split: prod.splits if_splits)

lemma astype_int_range: "astype_int c = Inr i \<Longrightarrow> in_int64 i"
proof (induction c rule: astype_int.induct)
  case (1 s)
  then show ?case by (simp add: int_of_str_range)
next
  case (3 b)
  then show ?case by (auto simp: in_int64_def)
qed (auto split: if_splits)

lemma and_then_Inr: "and_then m f = Inr y \<longleftrightarrow> (\<exists>x. m = Inr x \<and> f x = Inr y)"
  by (cases m) (auto simp: and_then_def)

lemma process_Inr_cases:
  assumes "process_world_bank_data raw = Inr rs"
  shows "rs = [] \<or> (\<exists>ns cs dates ys vs.
           traverse astype_int dates = Inr ys \<and> rs = sort_values (dropna ns cs ys vs))"
  using assms unfolding process_world_bank_data_def
  by (simp add: and_then_Inr split: json.splits if_splits) blast

lemma process_invariant:
  assumes "process_world_bank_data raw = Inr rs" "r \<in> set rs"
  shows "Value r \<noteq> NaN \<and> in_int64 (Year r)"
proof -
  from assms obtain ns cs dates ys vs where
    t: "traverse astype_int dates = Inr ys" and rs: "rs = sort_values (dropna ns cs ys vs)"
    using process_Inr_cases by fastforce
  from assms(2) rs have m: "r \<in> set (dropna ns cs ys vs)" by (simp add: sort_values_def)
  then have "Value r \<noteq> NaN" and y: "Year r \<in> set ys" using dropna_Value by blast+
  moreover from traverse_Inr_set [OF t y] have "in_int64 (Year r)"
    by (auto dest: astype_int_range)
  ultimately show ?thesis by simp
qed












section \<open>The pipeline on the samples\<close>

lemma process_mixed:
  "process_world_bank_data (envelope mixed_rows) = Inr [brazil_rec 1999 (7 / 2), chile_rec 2001 7]"
  by (simp add: sample_defs pipeline_defs int_of_str_samples float_of_str_samples)



section \<open>Growth summary lemmas\<close>

lemma filter_notnan: "NaN \<notin> set vs \<Longrightarrow> filter (\<lambda>v. v \<noteq> NaN) vs = vs"
  by (induction vs) auto

lemma agg_first_hd: "vs \<noteq> [] \<Longrightarrow> NaN \<notin> set vs \<Longrightarrow> agg_first vs = hd vs"
  unfolding agg_first_def by (cases vs) auto

lemma agg_last_last: "vs \<noteq> [] \<Longrightarrow> NaN \<notin> set vs \<Longrightarrow> agg_last vs = last vs"
  unfolding agg_last_def
  by (simp add: filter_notnan last_rev [symmetric] hd_rev split: list.splits)

lemma growth_names: "map growth_CountryName (growth_df df) = group_keys df"
  unfolding growth_df_def by (simp add: Let_def comp_def)

lemma group_keys_props:
  "distinct (group_keys df)" "set (group_keys df) = CountryName ` set df"
  unfolding group_keys_def by simp_all

lemma get_group_nonempty: "k \<in> CountryName ` set df \<Longrightarrow> get_group df k \<noteq> []"
  unfolding get_group_def by (auto simp: filter_empty_conv)

lemma growth_row_shape:
  assumes "g \<in> set (growth_df df)"
  shows "growth_CountryName g \<in> CountryName ` set df
    \<and> Initial_Value g = agg_first (map Value (get_group df (growth_CountryName g)))
    \<and> Final_Value g = agg_last (map Value (get_group df (growth_CountryName g)))
    \<and> Total_Growth g = total_growth (Final_Value g) (Initial_Value g)"
  using assms unfolding growth_df_def Let_def by (auto simp: group_keys_props)

lemma growth_first_last:
  assumes nn: "\<forall>r \<in> set df. Value r \<noteq> NaN" and g: "g \<in> set (growth_df df)"
  shows "get_group df (growth_CountryName g) \<noteq> []
    \<and> Initial_Value g = Value (hd (get_group df (growth_CountryName g)))
    \<and> Final_Value g = Value (last (get_group df (growth_CountryName g)))"
proof -
  let ?grp = "get_group df (growth_CountryName g)"
  from growth_row_shape [OF g] have k: "growth_CountryName g \<in> CountryName ` set df"
    and i: "Initial_Value g = agg_first (map Value ?grp)"
    and f: "Final_Value g = agg_last (map Value ?grp)" by simp_all
  have ne: "?grp \<noteq> []" using k by (rule get_group_nonempty)
  have "set ?grp \<subseteq> set df" by (auto simp: get_group_def)
  with nn have nan: "NaN \<notin> set (map Value ?grp)"
    by (metis (no_types, lifting) imageE list.set_map subsetD)
  from ne nan show ?thesis
    by (simp add: i f agg_first_hd agg_last_last hd_map last_map)
qed

lemma total_growth_zero:
  "total_growth f (Fin 0) =
     (case f of Fin a \<Rightarrow> if a = 0 then NaN else if 0 < a then PInf else NInf
      | PInf \<Rightarrow> PInf | NInf \<Rightarrow> NInf | NaN \<Rightarrow> NaN)"
  unfolding total_growth_def by (cases f) auto

lemmas growth_defs =
  growth_df_def group_keys_def get_group_def agg_first_def agg_last_def total_growth_def

section \<open>Claims\<close>

text \<open>
  C7. Normalizing the envelope of the end-to-end scenario yields exactly one record:
  Brazil, BRA, the year 2020 parsed from the string \<open>2020\<close> and the value 8523.1
  coerced from the string \<open>8523.1\<close>.
\<close>

theorem normalize_brazil:
  "process_world_bank_data brazil_envelope =
     Inr [\<lparr>CountryName = ''Brazil'', CountryCode = Some ''BRA'', Year = 2020,
           Value = Fin (85231 / 10)\<rparr>]"
  by (simp add: sample_defs pipeline_defs int_of_str_samples float_of_str_samples)

text \<open>
  C10. The country and start-year filter is idempotent: applying it twice to any
  frame gives what applying it once gives.
\<close>

theorem filtered_df_idempotent:
  "filtered_df (filtered_df df sel start) sel start = filtered_df df sel start"
  by (simp add: filtered_df_filter)

text \<open>
  C8. The filtered view holds exactly the records of the frame whose CountryName is
  in the selected set and whose Year is at least the start year, in the order of
  the frame. With no country selected it has no row, and the page then still
  computes its views: the filtered view and the growth summary are both empty.
\<close>

theorem filtered_df_exact:
  "filtered_df data_df sel start
     = filter (\<lambda>r. CountryName r \<in> set sel \<and> start \<le> Year r) data_df
   \<and> filtered_df data_df [] start = []
   \<and> (data_df \<noteq> [] \<longrightarrow>
        (\<exists>v. dashboard data_df [] start map_year = Some v
             \<and> view_filtered v = [] \<and> view_growth v = []))"
  by (simp add: filtered_df_filter dashboard_def Let_def growth_df_Nil)

theorem filtered_df_exact_witness:
  "[brazil_rec 2000 100, chile_rec 2001 2, brazil_rec 2005 150] \<noteq> []
   \<and> filtered_df [brazil_rec 2000 100, chile_rec 2001 2, brazil_rec 2005 150] [''Brazil''] 2001
       = [brazil_rec 2005 150]
   \<and> (\<exists>v. dashboard [brazil_rec 2000 100, chile_rec 2001 2, brazil_rec 2005 150] [] 2001 2005
             = Some v \<and> view_filtered v = [] \<and> view_growth v = [])"
  using filtered_df_exact
    [of "[brazil_rec 2000 100, chile_rec 2001 2, brazil_rec 2005 150]" "[''Brazil'']" 2001 2005]
  by (simp add: brazil_rec_def chile_rec_def)

text \<open>
  C9. The map snapshot holds exactly the records of the full normalized frame whose
  Year is the selected map year. On the page it is computed from the full frame, so
  it is the same for every selected country set and every start year.
\<close>

theorem df_map_exact:
  "df_map data_df map_year = filter (\<lambda>r. Year r = map_year) data_df
   \<and> (data_df \<noteq> [] \<longrightarrow>
        map_option view_map (dashboard data_df sel start map_year)
          = Some (filter (\<lambda>r. Year r = map_year) data_df))"
  by (simp add: dashboard_def Let_def df_map_filter)

theorem df_map_exact_witness:
  "[brazil_rec 2000 100, chile_rec 2001 2, brazil_rec 2005 150] \<noteq> []
   \<and> map_option view_map
        (dashboard [brazil_rec 2000 100, chile_rec 2001 2, brazil_rec 2005 150] [''Chile''] 2004 2000)
       = Some [brazil_rec 2000 100]"
  using df_map_exact
    [of "[brazil_rec 2000 100, chile_rec 2001 2, brazil_rec 2005 150]" 2000 "[''Chile'']" 2004]
  by (simp add: brazil_rec_def chile_rec_def)

text \<open>
  C3. For a frame without NaN values (as the normalization produces) and its
  filtered view, the growth summary has one row per distinct country of the view.
  The group of a row is the list of the records of the view that bear the row's
  country name, in the order of the view: the Initial_Value of the row is the
  Value of the first record of that list, its Final_Value the Value of the last
  one, and Total_Growth = (Final_Value / Initial_Value - 1) * 100. For one country
  with the records (2000, 100) and (2005, 150), Total_Growth is 50; with the
  records (2000, 10) and (2005, 20) of a second country after them, the summary
  has the two rows 50 and 100.
\<close>

theorem growth_summary:
  assumes "\<forall>r \<in> set data_df. Value r \<noteq> NaN"
    and "fd = filtered_df data_df sel start"
  shows "distinct (map growth_CountryName (growth_df fd))
    \<and> set (map growth_CountryName (growth_df fd)) = CountryName ` set fd
    \<and> (\<forall>g \<in> set (growth_df fd).
          filter (\<lambda>r. CountryName r = growth_CountryName g) fd \<noteq> []
          \<and> Initial_Value g
              = Value (hd (filter (\<lambda>r. CountryName r = growth_CountryName g) fd))
          \<and> Final_Value g
              = Value (last (filter (\<lambda>r. CountryName r = growth_CountryName g) fd))
          \<and> Total_Growth g
              = fmul (fsub (fdiv (Final_Value g) (Initial_Value g)) (Fin 1)) (Fin 100))
    \<and> growth_df [brazil_rec 2000 100, brazil_rec 2005 150]
        = [\<lparr>growth_CountryName = ''Brazil'', Final_Value = Fin 150, Initial_Value = Fin 100,
             Total_Growth = Fin 50\<rparr>]
    \<and> growth_df [brazil_rec 2000 100, brazil_rec 2005 150, chile_rec 2000 10, chile_rec 2005 20]
        = [\<lparr>growth_CountryName = ''Brazil'', Final_Value = Fin 150, Initial_Value = Fin 100,
             Total_Growth = Fin 50\<rparr>,
           \<lparr>growth_CountryName = ''Chile'', Final_Value = Fin 20, Initial_Value = Fin 10,
             Total_Growth = Fin 100\<rparr>]"
proof -
  have nn: "\<forall>r \<in> set fd. Value r \<noteq> NaN"
    using assms by (simp add: filtered_df_filter)
  have rows: "\<forall>g \<in> set (growth_df fd).
          filter (\<lambda>r. CountryName r = growth_CountryName g) fd \<noteq> []
          \<and> Initial_Value g
              = Value (hd (filter (\<lambda>r. CountryName r = growth_CountryName g) fd))
          \<and> Final_Value g
              = Value (last (filter (\<lambda>r. CountryName r = growth_CountryName g) fd))
          \<and> Total_Growth g
              = fmul (fsub (fdiv (Final_Value g) (Initial_Value g)) (Fin 1)) (Fin 100)"
  proof
    fix g assume g: "g \<in> set (growth_df fd)"
    from growth_row_shape [OF g]
    have "Total_Growth g = fmul (fsub (fdiv (Final_Value g) (Initial_Value g)) (Fin 1)) (Fin 100)"
      by (simp add: total_growth_def)
    with growth_first_last [OF nn g]
    show "filter (\<lambda>r. CountryName r = growth_CountryName g) fd \<noteq> []
          \<and> Initial_Value g
              = Value (hd (filter (\<lambda>r. CountryName r = growth_CountryName g) fd))
          \<and> Final_Value g
              = Value (last (filter (\<lambda>r. CountryName r = growth_CountryName g) fd))
          \<and> Total_Growth g
              = fmul (fsub (fdiv (Final_Value g) (Initial_Value g)) (Fin 1)) (Fin 100)"
      by (simp add: get_group_def)
  qed
  have ex1: "growth_df [brazil_rec 2000 100, brazil_rec 2005 150]
        = [\<lparr>growth_CountryName = ''Brazil'', Final_Value = Fin 150, Initial_Value = Fin 100,
             Total_Growth = Fin 50\<rparr>]"
    by (simp add: growth_defs brazil_rec_def)
  have ex2: "growth_df
          [brazil_rec 2000 100, brazil_rec 2005 150, chile_rec 2000 10, chile_rec 2005 20]
        = [\<lparr>growth_CountryName = ''Brazil'', Final_Value = Fin 150, Initial_Value = Fin 100,
             Total_Growth = Fin 50\<rparr>,
           \<lparr>growth_CountryName = ''Chile'', Final_Value = Fin 20, Initial_Value = Fin 10,
             Total_Growth = Fin 100\<rparr>]"
    by (simp add: growth_defs brazil_rec_def chile_rec_def)
  show ?thesis
    using rows ex1 ex2 by (simp add: growth_names group_keys_props)
qed

theorem growth_summary_witness:
  "list_all (\<lambda>r. Value r \<noteq> NaN)
     [brazil_rec 1999 80, brazil_rec 2000 100, brazil_rec 2005 150,
      chile_rec 1999 5, chile_rec 2000 10, chile_rec 2005 20]
   \<and> filtered_df
        [brazil_rec 1999 80, brazil_rec 2000 100, brazil_rec 2005 150,
         chile_rec 1999 5, chile_rec 2000 10, chile_rec 2005 20]
        [''Chile'', ''Brazil''] 2000
       = [brazil_rec 2000 100, brazil_rec 2005 150, chile_rec 2000 10, chile_rec 2005 20]
   \<and> list_all
        (\<lambda>g. (growth_CountryName g, Initial_Value g, Final_Value g)
               \<in> {(''Brazil'', Fin 100, Fin 150), (''Chile'', Fin 10, Fin 20)})
        (growth_df
           [brazil_rec 2000 100, brazil_rec 2005 150, chile_rec 2000 10, chile_rec 2005 20])"
proof -
  let ?data = "[brazil_rec 1999 80, brazil_rec 2000 100, brazil_rec 2005 150,
      chile_rec 1999 5, chile_rec 2000 10, chile_rec 2005 20]"
  let ?fd = "[brazil_rec 2000 100, brazil_rec 2005 150, chile_rec 2000 10, chile_rec 2005 20]"
  have nn: "\<forall>r \<in> set ?data. Value r \<noteq> NaN"
    by (simp add: brazil_rec_def chile_rec_def)
  have fd: "?fd = filtered_df ?data [''Chile'', ''Brazil''] 2000"
    by (simp add: filtered_df_filter brazil_rec_def chile_rec_def)
  have brazil: "filter (\<lambda>r. CountryName r = ''Brazil'') ?fd
      = [brazil_rec 2000 100, brazil_rec 2005 150]"
    by (simp add: brazil_rec_def chile_rec_def)
  have chile: "filter (\<lambda>r. CountryName r = ''Chile'') ?fd
      = [chile_rec 2000 10, chile_rec 2005 20]"
    by (simp add: brazil_rec_def chile_rec_def)
  note summary = growth_summary [OF nn fd]
  have "\<forall>g \<in> set (growth_df ?fd).
         (growth_CountryName g, Initial_Value g, Final_Value g)
           \<in> {(''Brazil'', Fin 100, Fin 150), (''Chile'', Fin 10, Fin 20)}"
  proof
    fix g assume g: "g \<in> set (growth_df ?fd)"
    then have "growth_CountryName g \<in> set (map growth_CountryName (growth_df ?fd))" by simp
    with summary have "growth_CountryName g \<in> CountryName ` set ?fd" by blast
    then have n: "growth_CountryName g = ''Brazil'' \<or> growth_CountryName g = ''Chile''"
      by (auto simp: brazil_rec_def chile_rec_def)
    from summary g
    have v: "Initial_Value g
          = Value (hd (filter (\<lambda>r. CountryName r = growth_CountryName g) ?fd))
        \<and> Final_Value g
          = Value (last (filter (\<lambda>r. CountryName r = growth_CountryName g) ?fd))" by blast
    from n show "(growth_CountryName g, Initial_Value g, Final_Value g)
           \<in> {(''Brazil'', Fin 100, Fin 150), (''Chile'', Fin 10, Fin 20)}"
    proof
      assume b: "growth_CountryName g = ''Brazil''"
      with v brazil have "Initial_Value g = Fin 100 \<and> Final_Value g = Fin 150"
        by (simp add: brazil_rec_def)
      with b show ?thesis by simp
    next
      assume c: "growth_CountryName g = ''Chile''"
      with v chile have "Initial_Value g = Fin 10 \<and> Final_Value g = Fin 20"
        by (simp add: chile_rec_def)
      with c show ?thesis by simp
    qed
  qed
  with nn fd show ?thesis by (simp add: list_all_iff)
qed

text \<open>
  C4. Computing the growth summary is a total operation. In a row whose
  Initial_Value is 0, Total_Growth is an infinity or NaN, a value of the float type
  like any other: positive infinity for a positive Final_Value, negative infinity
  for a negative one, NaN when Final_Value is 0 or NaN. (The zero here is 0.0; the
  negative zero, which \<open>fl\<close> does not tell apart, swaps the two infinities.)
\<close>

theorem growth_zero_initial:
  assumes "g \<in> set (growth_df df)" and "Initial_Value g = Fin 0"
  shows "Total_Growth g \<in> {PInf, NInf, NaN}
    \<and> Total_Growth g =
        (case Final_Value g of
           Fin a \<Rightarrow> if a = 0 then NaN else if 0 < a then PInf else NInf
         | PInf \<Rightarrow> PInf | NInf \<Rightarrow> NInf | NaN \<Rightarrow> NaN)"
proof -
  from growth_row_shape [OF assms(1)] assms(2)
  have "Total_Growth g = total_growth (Final_Value g) (Fin 0)" by simp
  then show ?thesis
    by (simp add: total_growth_zero split: fl.splits)
qed

theorem growth_zero_initial_witness:
  "\<lparr>growth_CountryName = ''Brazil'', Final_Value = Fin 150, Initial_Value = Fin 0,
     Total_Growth = PInf\<rparr> \<in> set (growth_df [brazil_rec 2000 0, brazil_rec 2005 150])
   \<and> Total_Growth \<lparr>growth_CountryName = ''Brazil'', Final_Value = Fin 150,
        Initial_Value = Fin 0, Total_Growth = PInf\<rparr> \<in> {PInf, NInf, NaN}"
proof -
  have m: "\<lparr>growth_CountryName = ''Brazil'', Final_Value = Fin 150, Initial_Value = Fin 0,
     Total_Growth = PInf\<rparr> \<in> set (growth_df [brazil_rec 2000 0, brazil_rec 2005 150])"
    by (simp add: growth_defs brazil_rec_def)
  from growth_zero_initial [OF m] m show ?thesis by simp
qed




text \<open>
  C2 (amended). The fetch returns the result of the normalization, with no notice,
  exactly for the status 200. For any other status it emits one notice with the
  status code and returns the empty record set; for a network failure it emits
  one connection-error notice and returns the empty record set. It never emits
  more than one notice, and whenever it emits one it returns the empty record set.
\<close>

theorem load_data_outcomes:
  "(status \<noteq> 200 \<longrightarrow>
      load_data (Response status body) = ([api_error_notice status], Inr []))
   \<and> load_data (RequestException e) = ([connection_error_notice e], Inr [])
   \<and> load_data (Response 200 (Some data)) = ([], process_world_bank_data data)
   \<and> length (fst (load_data outcome)) \<le> 1
   \<and> (fst (load_data outcome) \<noteq> [] \<longrightarrow> snd (load_data outcome) = Inr [])"
proof -
  have "length (fst (load_data outcome)) \<le> 1
      \<and> (fst (load_data outcome) \<noteq> [] \<longrightarrow> snd (load_data outcome) = Inr [])"
    by (cases outcome) (auto split: option.splits)
  then show ?thesis by simp
qed

theorem load_data_outcomes_witness:
  "(500 :: int) \<noteq> 200
   \<and> load_data (Response 500 None)
       = ([''Error al conectar con la API: C'' @ [CHR 0xC3, CHR 0xB3] @ ''digo 500''], Inr [])
   \<and> load_data (RequestException ''timed out'')
       = ([''Error de conexi'' @ [CHR 0xC3, CHR 0xB3] @ ''n: timed out''], Inr [])
   \<and> load_data (Response 200 (Some (envelope mixed_rows)))
       = ([], Inr [brazil_rec 1999 (7 / 2), chile_rec 2001 7])"
  using load_data_outcomes
    [of 500 None "''timed out''" "envelope mixed_rows" "Response 500 None"]
  by (simp add: process_mixed api_error_notice_def connection_error_notice_def str_int_def
      str_nat.simps digit_char_def)

text \<open>
  Counterexample to C2 as stated: the status 201 is a success, yet the fetch
  returns the empty record set and a notice instead of the normalized records; and
  with the status 200 and the envelope of an empty result, the KeyError of the
  normalization leaves the fetch.
\<close>

theorem load_data_not_2xx:
  "load_data (Response 201 (Some (envelope mixed_rows))) = ([api_error_notice 201], Inr [])
   \<and> process_world_bank_data (envelope mixed_rows) \<noteq> Inr []
   \<and> load_data (Response 200 (Some no_data_envelope)) = ([], Inl (KeyError ''country''))"
  by (simp add: process_mixed) (simp add: sample_defs pipeline_defs)

text \<open>
  C5 (amended). Every record in the output of normalization has a Value that is
  not NaN and a Year that is a 64-bit integer; its CountryName is a string. The
  Value may be infinite, the CountryName may be empty, and the CountryCode is
  whatever the input holds.
\<close>

theorem normalized_record_valid:
  assumes "process_world_bank_data raw = Inr rs" and "r \<in> set rs"
  shows "Value r \<noteq> NaN \<and> - (2 ^ 63) \<le> Year r \<and> Year r < 2 ^ 63"
  using process_invariant [OF assms] by (simp add: in_int64_def)

theorem normalized_record_valid_witness:
  "process_world_bank_data (envelope mixed_rows)
     = Inr [brazil_rec 1999 (7 / 2), chile_rec 2001 7]
   \<and> chile_rec 2001 7 \<in> set [brazil_rec 1999 (7 / 2), chile_rec 2001 7]
   \<and> Value (chile_rec 2001 7) \<noteq> NaN
   \<and> - (2 ^ 63) \<le> Year (chile_rec 2001 7) \<and> Year (chile_rec 2001 7) < 2 ^ 63"
proof -
  have m: "chile_rec 2001 7 \<in> set [brazil_rec 1999 (7 / 2), chile_rec 2001 7]" by simp
  from normalized_record_valid [OF process_mixed m] process_mixed m show ?thesis by blast
qed

text \<open>
  Counterexample to C5 as stated: a record with an empty name, an empty code and an
  infinite value passes the normalization unchanged.
\<close>

theorem normalized_record_loose:
  "process_world_bank_data (envelope loose_rows)
     = Inr [\<lparr>CountryName = [], CountryCode = Some [], Year = 2020, Value = PInf\<rparr>]"
  by (simp add: sample_defs pipeline_defs int_of_str_samples)



end
